theory Spec2Isabelle
  imports Main "HOL-Library.AList"
begin

section \<open>Data model\<close>

text \<open>
  The add-on keeps bank accounts, a ledger of transactions and one cash row per player in a
  relational store, reached through an object-relational mapper. Money amounts are
  JavaScript numbers holding whole minor-currency units; they are modelled as unbounded
  integers (no rounding is modelled).
\<close>

datatype TransactionType = Outgoing | Incoming | Transfer

datatype TransferType = Internal | External

datatype AccountRole = Owner | Admin | Member

text \<open>
  \<open>NotFound\<close> is \<^verbatim>\<open>new ServerError(GenericErrors.NotFound)\<close>; \<open>TypeError\<close> is what
  dereferencing a missing user raises; \<open>Failure\<close> stands for any error raised by the
  persistence layer.
\<close>

datatype error = NotFound | TypeError | Failure string

record account =
  acc_id :: int
  ownerIdentifier :: string
  balance :: int

record sharedAccount =
  sa_accountId :: int
  sa_userIdentifier :: string
  sa_role :: AccountRole

record externalAccount =
  ext_id :: int
  ext_accountId :: int

text \<open>The argument of \<^verbatim>\<open>TransactionDB.create\<close>.\<close>

record TransactionInput =
  in_amount :: int
  in_message :: string
  in_toAccount :: "account option"
  in_fromAccount :: "account option"
  in_type :: TransactionType

text \<open>A stored ledger row: the input plus the creation timestamp (milliseconds).\<close>

record transaction =
  tx_amount :: int
  tx_message :: string
  tx_toAccount :: "account option"
  tx_fromAccount :: "account option"
  tx_type :: TransactionType
  tx_createdAt :: "int option"

record cash =
  cash_id :: int
  cash_ownerIdentifier :: string
  cash_amount :: int

record db =
  accounts :: "account list"
  sharedAccounts :: "sharedAccount list"
  externalAccounts :: "externalAccount list"
  transactions :: "transaction list"
  cashRows :: "cash list"

record Transfer =
  fromAccountId :: int
  toAccountId :: int
  amount :: int
  message :: string
  transferType :: TransferType

record 'a Request =
  source :: int
  data :: 'a

section \<open>Collaborators\<close>

text \<open>
  Every call that reaches the persistence layer may raise. The calls are named after the
  method the service invokes; \<open>faults\<close> tells, for each, whether it raises and what.
\<close>

datatype db_call =
    AccountDB_getAuthorizedAccountById
  | AccountDB_getAuthorizedSharedAccountById
  | AccountDB_getAccount
  | AccountDB_getAccountsByIdentifier
  | ExternalAccountService_getAccountFromExternalAccount
  | Account_increment
  | Account_decrement
  | TransactionDB_create TransactionType
  | TransactionDB_getAllTransactionsFromAccounts
  | CashDB_getCashByIdentifier
  | Cash_increment
  | Cash_decrement

text \<open>
  What a handler takes from its surroundings: the failures of the persistence layer, the
  clock (\<^verbatim>\<open>Date.now()\<close>), the user directory (session to player identifier), the host's
  \<^verbatim>\<open>Date.prototype.toDateString\<close> (it depends on the host's time zone) and the
  configuration flag \<^verbatim>\<open>config.general.useFrameworkIntegration\<close>.
\<close>

record env =
  faults :: "db_call \<Rightarrow> error option"
  now :: int
  users :: "int \<Rightarrow> string option"
  toDateString :: "int \<Rightarrow> string"
  useFrameworkIntegration :: bool

text \<open>
  Modelled from the spec: the user directory \<^verbatim>\<open>UserService.getUser\<close> is not part of the
  sources at hand. It maps a connected session to the player's identifier; an unknown
  session yields no user, and \<^verbatim>\<open>user.getIdentifier()\<close> on it raises.
\<close>

definition getUser :: "env \<Rightarrow> int \<Rightarrow> string option" where
  "getUser e src = users e src"

text \<open>
  Modelled from the spec: the account store \<^verbatim>\<open>AccountDB\<close> is not part of the sources at
  hand. \<^verbatim>\<open>getAccount(id)\<close> finds the row with the given id. A lookup returns a handle: a
  copy of the row as it was read.
\<close>

definition getAccount :: "db \<Rightarrow> int \<Rightarrow> account option" where
  "getAccount d i = find (\<lambda>a. acc_id a = i) (accounts d)"

text \<open>
  Modelled from the spec: \<^verbatim>\<open>AccountDB.getAuthorizedAccountById(id, identifier)\<close> finds the
  row with the given id that the caller owns.
\<close>

definition getAuthorizedAccountById :: "db \<Rightarrow> int \<Rightarrow> string \<Rightarrow> account option" where
  "getAuthorizedAccountById d i identifier =
     find (\<lambda>a. acc_id a = i \<and> ownerIdentifier a = identifier) (accounts d)"

text \<open>
  Modelled from the spec: \<^verbatim>\<open>AccountDB.getAuthorizedSharedAccountById(id, identifier, roles)\<close>
  finds the account with the given id on which the caller holds one of the given roles.
\<close>

definition getAuthorizedSharedAccountById ::
  "db \<Rightarrow> int \<Rightarrow> string \<Rightarrow> AccountRole list \<Rightarrow> account option" where
  "getAuthorizedSharedAccountById d i identifier roles =
     (case find (\<lambda>s. sa_accountId s = i \<and> sa_userIdentifier s = identifier
                     \<and> sa_role s \<in> set roles) (sharedAccounts d) of
        None \<Rightarrow> None
      | Some s \<Rightarrow> getAccount d (sa_accountId s))"

text \<open>
  Modelled from the spec: \<^verbatim>\<open>AccountDB.getAccountsByIdentifier(identifier)\<close> returns every
  row the caller owns.
\<close>

definition getAccountsByIdentifier :: "db \<Rightarrow> string \<Rightarrow> account list" where
  "getAccountsByIdentifier d identifier =
     filter (\<lambda>a. ownerIdentifier a = identifier) (accounts d)"

text \<open>
  Modelled from the spec: the external-account collaborator is not part of the sources at
  hand. It resolves the id of an external account to the account behind it.
\<close>

definition getAccountFromExternalAccount :: "db \<Rightarrow> int \<Rightarrow> account option" where
  "getAccountFromExternalAccount d i =
     (case find (\<lambda>x. ext_id x = i) (externalAccounts d) of
        None \<Rightarrow> None
      | Some x \<Rightarrow> getAccount d (ext_accountId x))"

text \<open>
  Modelled from the spec: \<^verbatim>\<open>account.increment('balance', { by })\<close> is the mapper's. It
  adds to the balance of the stored row whose id is the handle's; the handle itself keeps
  the values it was read with.
\<close>

definition increment :: "account \<Rightarrow> int \<Rightarrow> db \<Rightarrow> db" where
  "increment h by d =
     d\<lparr>accounts := map (\<lambda>a. if acc_id a = acc_id h then a\<lparr>balance := balance a + by\<rparr> else a)
                        (accounts d)\<rparr>"

text \<open>
  Modelled from the spec: \<^verbatim>\<open>account.decrement('balance', { by })\<close> subtracts from the
  balance of the stored row whose id is the handle's.
\<close>

definition decrement :: "account \<Rightarrow> int \<Rightarrow> db \<Rightarrow> db" where
  "decrement h by d =
     d\<lparr>accounts := map (\<lambda>a. if acc_id a = acc_id h then a\<lparr>balance := balance a - by\<rparr> else a)
                        (accounts d)\<rparr>"

text \<open>
  Modelled from the spec: \<^verbatim>\<open>account.toJSON()\<close> is the serializable snapshot of a handle,
  the account as it was looked up.
\<close>

definition toJSON :: "account \<Rightarrow> account" where
  "toJSON h = h"

text \<open>
  Modelled from the spec: the transaction store \<^verbatim>\<open>TransactionDB\<close> is not part of the
  sources at hand. \<^verbatim>\<open>create(record)\<close> appends one row to the ledger, stamped with the
  current time.
\<close>

definition create :: "int \<Rightarrow> TransactionInput \<Rightarrow> db \<Rightarrow> db" where
  "create time i d =
     d\<lparr>transactions := transactions d @
        [\<lparr>tx_amount = in_amount i, tx_message = in_message i, tx_toAccount = in_toAccount i,
          tx_fromAccount = in_fromAccount i, tx_type = in_type i, tx_createdAt = Some time\<rparr>]\<rparr>"

text \<open>
  Modelled from the spec: whether a row's account snapshot is one of the given accounts,
  as the query below asks for either side of a row.
\<close>

definition names_account :: "int list \<Rightarrow> account option \<Rightarrow> bool" where
  "names_account ids a = (case a of None \<Rightarrow> False | Some x \<Rightarrow> acc_id x \<in> set ids)"

text \<open>
  Modelled from the spec: \<^verbatim>\<open>TransactionDB.getAllTransactionsFromAccounts(ids, sinceDate)\<close>
  returns, in ledger order, the rows created since the given time that name one of the
  given accounts.
\<close>

definition getAllTransactionsFromAccounts :: "db \<Rightarrow> int list \<Rightarrow> int \<Rightarrow> transaction list" where
  "getAllTransactionsFromAccounts d accountIds since =
     filter (\<lambda>t. (names_account accountIds (tx_toAccount t)
                   \<or> names_account accountIds (tx_fromAccount t))
                \<and> (case tx_createdAt t of None \<Rightarrow> False | Some c \<Rightarrow> since \<le> c))
            (transactions d)"

text \<open>
  The handle of an unmanaged database transaction. The transaction covers the writes that
  are handed its handle (the option \<^verbatim>\<open>{ transaction: t }\<close> of a call); the handle keeps
  how to undo them.
\<close>

record transaction_handle =
  undo :: "db \<Rightarrow> db"

text \<open>
  Modelled from the spec: the database transaction of \<^verbatim>\<open>sequelize.transaction()\<close> (the
  connection pool and the mapper) is not part of the sources at hand. A transaction
  begins with no write to undo.
\<close>

definition sequelize_transaction :: "db \<Rightarrow> transaction_handle" where
  "sequelize_transaction d = \<lparr>undo = (\<lambda>s. s)\<rparr>"

text \<open>
  Modelled from the spec: \<^verbatim>\<open>t.commit()\<close> keeps the writes of the transaction; the store
  is what the block left.
\<close>

definition commit :: "transaction_handle \<Rightarrow> db \<Rightarrow> db" where
  "commit t d = d"

text \<open>
  Modelled from the spec: \<^verbatim>\<open>t.rollback()\<close> undoes the writes that were made through the
  handle, and no other.
\<close>

definition rollback :: "transaction_handle \<Rightarrow> db \<Rightarrow> db" where
  "rollback t d = undo t d"

section \<open>Asynchronous calls that may raise\<close>

text \<open>
  An awaited computation takes the store and returns the store it leaves together with
  the error it raised or the value it produced.
\<close>

type_synonym 'a io = "db \<Rightarrow> db \<times> (error + 'a)"

definition andThen :: "'a io \<Rightarrow> ('a \<Rightarrow> 'b io) \<Rightarrow> 'b io" where
  "andThen m k d = (case m d of (d1, Inl e) \<Rightarrow> (d1, Inl e) | (d1, Inr x) \<Rightarrow> k x d1)"

definition throw :: "error \<Rightarrow> 'a io" where
  "throw e d = (d, Inl e)"

text \<open>A reading call: it raises, or returns what it reads.\<close>

definition query :: "env \<Rightarrow> db_call \<Rightarrow> (db \<Rightarrow> 'a) \<Rightarrow> 'a io" where
  "query e c f d = (case faults e c of Some err \<Rightarrow> (d, Inl err) | None \<Rightarrow> (d, Inr (f d)))"

text \<open>
  A writing call: it raises and writes nothing, or writes. Every writing call of the
  service is made without a transaction option, so it writes to the store at once and
  enters no handle.
\<close>

definition exec :: "env \<Rightarrow> db_call \<Rightarrow> (db \<Rightarrow> db) \<Rightarrow> unit io" where
  "exec e c f d = (case faults e c of Some err \<Rightarrow> (d, Inl err) | None \<Rightarrow> (f d, Inr ()))"

text \<open>The nullish coalescing operator \<^verbatim>\<open>a ?? b\<close>.\<close>

definition nullish :: "'a option \<Rightarrow> 'a option \<Rightarrow> 'a option" where
  "nullish a b = (case a of Some x \<Rightarrow> Some x | None \<Rightarrow> b)"

section \<open>Transaction service\<close>

text \<open>The \<^verbatim>\<open>try\<close> block of \<^verbatim>\<open>handleInternalTransfer\<close>, up to the commit.\<close>

definition handleInternalTransfer_try :: "env \<Rightarrow> string \<Rightarrow> Transfer \<Rightarrow> unit io" where
  "handleInternalTransfer_try e identifier r =
     andThen (query e AccountDB_getAuthorizedAccountById
                (\<lambda>d. getAuthorizedAccountById d (fromAccountId r) identifier)) (\<lambda>myAccount.
     andThen (query e AccountDB_getAuthorizedSharedAccountById
                (\<lambda>d. getAuthorizedSharedAccountById d (fromAccountId r) identifier [Admin, Owner]))
       (\<lambda>sharedAccount.
     andThen (query e AccountDB_getAccount (\<lambda>d. getAccount d (toAccountId r))) (\<lambda>toAccount.
       case (toAccount, nullish myAccount sharedAccount) of
         (Some toAcc, Some fromAcc) \<Rightarrow>
           andThen (exec e Account_increment (increment toAcc (amount r))) (\<lambda>_.
           andThen (exec e Account_decrement (decrement fromAcc (amount r))) (\<lambda>_.
             exec e (TransactionDB_create Transfer)
               (create (now e)
                  \<lparr>in_amount = amount r, in_message = message r,
                   in_toAccount = Some (toJSON toAcc), in_fromAccount = Some (toJSON fromAcc),
                   in_type = Transfer\<rparr>)))
       | _ \<Rightarrow> throw NotFound)))"

text \<open>
  \<^verbatim>\<open>handleInternalTransfer\<close>: the transaction is opened and the user resolved before
  the \<^verbatim>\<open>try\<close>; the \<^verbatim>\<open>catch\<close> calls \<^verbatim>\<open>t.rollback()\<close> and raises the error it caught.
  The handle \<^verbatim>\<open>t\<close> is passed to none of the calls of the block.
\<close>

definition handleInternalTransfer :: "env \<Rightarrow> Transfer Request \<Rightarrow> unit io" where
  "handleInternalTransfer e req d =
     (let t = sequelize_transaction d in
      case getUser e (source req) of
        None \<Rightarrow> (d, Inl TypeError)
      | Some identifier \<Rightarrow>
          (case handleInternalTransfer_try e identifier (data req) d of
             (d1, Inr u) \<Rightarrow> (commit t d1, Inr u)
           | (d1, Inl err) \<Rightarrow> (rollback t d1, Inl err)))"

text \<open>The \<^verbatim>\<open>try\<close> block of \<^verbatim>\<open>handleExternalTransfer\<close>, up to the commit.\<close>

definition handleExternalTransfer_try :: "env \<Rightarrow> Transfer \<Rightarrow> unit io" where
  "handleExternalTransfer_try e r =
     andThen (query e AccountDB_getAccount (\<lambda>d. getAccount d (fromAccountId r))) (\<lambda>myAccount.
     andThen (query e ExternalAccountService_getAccountFromExternalAccount
                (\<lambda>d. getAccountFromExternalAccount d (toAccountId r))) (\<lambda>toAccount.
       case (toAccount, myAccount) of
         (Some toAcc, Some myAcc) \<Rightarrow>
           andThen (exec e Account_decrement (decrement myAcc (amount r))) (\<lambda>_.
           andThen (exec e Account_increment (increment toAcc (amount r))) (\<lambda>_.
           andThen (exec e (TransactionDB_create Outgoing)
                      (create (now e)
                         \<lparr>in_amount = amount r, in_message = message r,
                          in_toAccount = Some (toJSON toAcc),
                          in_fromAccount = Some (toJSON myAcc), in_type = Outgoing\<rparr>)) (\<lambda>_.
             exec e (TransactionDB_create Incoming)
               (create (now e)
                  \<lparr>in_amount = amount r, in_message = message r,
                   in_toAccount = Some (toJSON toAcc),
                   in_fromAccount = Some (toJSON myAcc), in_type = Incoming\<rparr>))))
       | _ \<Rightarrow> throw NotFound))"

text \<open>
  \<^verbatim>\<open>handleExternalTransfer\<close>: no user is resolved; commit and rollback as for the internal
  transfer.
\<close>

definition handleExternalTransfer :: "env \<Rightarrow> Transfer Request \<Rightarrow> unit io" where
  "handleExternalTransfer e req d =
     (let t = sequelize_transaction d in
      case handleExternalTransfer_try e (data req) d of
        (d1, Inr u) \<Rightarrow> (commit t d1, Inr u)
      | (d1, Inl err) \<Rightarrow> (rollback t d1, Inl err))"

text \<open>\<^verbatim>\<open>handleTransfer\<close> dispatches on the \<^verbatim>\<open>type\<close> of the payload.\<close>

definition handleTransfer :: "env \<Rightarrow> Transfer Request \<Rightarrow> unit io" where
  "handleTransfer e req =
     (let isExternalTransfer = (transferType (data req) = External) in
      if isExternalTransfer then handleExternalTransfer e req
      else handleInternalTransfer e req)"

text \<open>
  Modelled from the spec: the constant \<^verbatim>\<open>MS_ONE_WEEK\<close> of \<^verbatim>\<open>@utils/constants\<close> is not part
  of the sources at hand; the window is the trailing seven days, in milliseconds.
\<close>

definition MS_ONE_WEEK :: int where
  "MS_ONE_WEEK = 7 * 24 * 60 * 60 * 1000"

record day_totals =
  day_income :: int
  day_expenses :: int

text \<open>
  \<^verbatim>\<open>GetTransactionHistoryResponse\<close>. The object \<^verbatim>\<open>lastWeek\<close> is kept as the list of its
  entries in insertion order: writing a key that is present replaces its value in place,
  writing a new key appends it.
\<close>

record history =
  income :: int
  lastWeek :: "(string \<times> day_totals) list"
  expenses :: int

text \<open>The three reducers of \<^verbatim>\<open>handleGetHistory\<close>, one step each.\<close>

definition expenses_step :: "int \<Rightarrow> transaction \<Rightarrow> int" where
  "expenses_step prev cur =
     (if tx_type cur = Outgoing then prev - tx_amount cur else prev)"

definition income_step :: "int \<Rightarrow> transaction \<Rightarrow> int" where
  "income_step prev cur =
     (if tx_type cur = Incoming then prev + tx_amount cur else prev)"

text \<open>
  \<^verbatim>\<open>new Date(createdAt ?? '').toDateString()\<close>: a row without a timestamp gives an invalid
  date, which prints as \<^verbatim>\<open>Invalid Date\<close>.
\<close>

definition localeDate :: "env \<Rightarrow> transaction \<Rightarrow> string" where
  "localeDate e cur =
     (case tx_createdAt cur of None \<Rightarrow> ''Invalid Date'' | Some c \<Rightarrow> toDateString e c)"

text \<open>\<^verbatim>\<open>const { income = 0, expenses = 0 } = prev[localeDate] ?? {}\<close>.\<close>

definition totals_at :: "(string \<times> day_totals) list \<Rightarrow> string \<Rightarrow> int \<times> int" where
  "totals_at prev day =
     (case map_of prev day of None \<Rightarrow> (0, 0) | Some b \<Rightarrow> (day_income b, day_expenses b))"

definition lastWeek_step ::
  "env \<Rightarrow> (string \<times> day_totals) list \<Rightarrow> transaction \<Rightarrow> (string \<times> day_totals) list" where
  "lastWeek_step e prev cur =
     (let isIncoming = (tx_type cur = Incoming);
          isOutgoing = (tx_type cur = Outgoing);
          day = localeDate e cur;
          income0 = fst (totals_at prev day);
          expenses0 = snd (totals_at prev day);
          newIncome = (if isIncoming then income0 + tx_amount cur else income0);
          newExpenses = (if isOutgoing then expenses0 - tx_amount cur else expenses0)
      in AList.update day \<lparr>day_income = newIncome, day_expenses = newExpenses\<rparr> prev)"

text \<open>The aggregation of \<^verbatim>\<open>handleGetHistory\<close> over the rows the store returned.\<close>

definition history_of :: "env \<Rightarrow> transaction list \<Rightarrow> history" where
  "history_of e txs =
     \<lparr>income = foldl income_step 0 txs,
      lastWeek = foldl (lastWeek_step e) [] txs,
      expenses = foldl expenses_step 0 txs\<rparr>"

text \<open>
  \<^verbatim>\<open>handleGetHistory\<close>: the caller's accounts, the rows of the last week that name them,
  and the aggregation.
\<close>

definition handleGetHistory :: "env \<Rightarrow> unit Request \<Rightarrow> db \<Rightarrow> error + history" where
  "handleGetHistory e req d =
     (case getUser e (source req) of
        None \<Rightarrow> Inl TypeError
      | Some identifier \<Rightarrow>
          (case faults e AccountDB_getAccountsByIdentifier of
             Some err \<Rightarrow> Inl err
           | None \<Rightarrow>
               (let accs = getAccountsByIdentifier d identifier;
                    since = now e - MS_ONE_WEEK;
                    accountIds = map acc_id accs
                in case faults e TransactionDB_getAllTransactionsFromAccounts of
                     Some err \<Rightarrow> Inl err
                   | None \<Rightarrow>
                       Inr (history_of e (getAllTransactionsFromAccounts d accountIds since)))))"

section \<open>Cash service\<close>

text \<open>
  The calls made on the exports of the framework resource, in the order they were made.
  The integration itself lies outside the add-on.
\<close>

datatype export_call = pefclDepositMoney int int | pefclWithdrawMoney int int

record world =
  store :: db
  exportCalls :: "export_call list"

text \<open>
  Modelled from the spec: the cash store \<^verbatim>\<open>CashDB\<close> is not part of the sources at hand.
  \<^verbatim>\<open>getCashByIdentifier(identifier)\<close> finds the player's cash row and returns a handle on
  it.
\<close>

definition getCashByIdentifier :: "db \<Rightarrow> string \<Rightarrow> cash option" where
  "getCashByIdentifier d identifier =
     find (\<lambda>c. cash_ownerIdentifier c = identifier) (cashRows d)"

text \<open>
  Modelled from the spec: \<^verbatim>\<open>cash.decrement({ amount })\<close> subtracts from the amount of the
  stored row whose id is the handle's; the handle keeps the values it was read with.
\<close>

definition cash_decrement :: "cash \<Rightarrow> int \<Rightarrow> db \<Rightarrow> db" where
  "cash_decrement h by d =
     d\<lparr>cashRows := map (\<lambda>c. if cash_id c = cash_id h
                             then c\<lparr>cash_amount := cash_amount c - by\<rparr> else c)
                        (cashRows d)\<rparr>"

text \<open>
  Modelled from the spec: \<^verbatim>\<open>cash.increment({ amount })\<close> adds to the amount of the stored
  row whose id is the handle's.
\<close>

definition cash_increment :: "cash \<Rightarrow> int \<Rightarrow> db \<Rightarrow> db" where
  "cash_increment h by d =
     d\<lparr>cashRows := map (\<lambda>c. if cash_id c = cash_id h
                             then c\<lparr>cash_amount := cash_amount c + by\<rparr> else c)
                        (cashRows d)\<rparr>"

text \<open>
  \<^verbatim>\<open>handleTakeCash\<close>: with the integration flag set, one call on the export
  \<^verbatim>\<open>pefclDepositMoney\<close> and \<^verbatim>\<open>null\<close>; otherwise \<^verbatim>\<open>cash?.decrement({ amount })\<close> on the
  player's row, if there is one, and the handle.
\<close>

definition handleTakeCash ::
  "env \<Rightarrow> int \<Rightarrow> int \<Rightarrow> world \<Rightarrow> world \<times> (error + cash option)" where
  "handleTakeCash e src amt w =
     (case getUser e src of
        None \<Rightarrow> (w, Inl TypeError)
      | Some identifier \<Rightarrow>
          if useFrameworkIntegration e
          then (w\<lparr>exportCalls := exportCalls w @ [pefclDepositMoney src amt]\<rparr>, Inr None)
          else (case faults e CashDB_getCashByIdentifier of
                  Some err \<Rightarrow> (w, Inl err)
                | None \<Rightarrow>
                    (case getCashByIdentifier (store w) identifier of
                       None \<Rightarrow> (w, Inr None)
                     | Some c \<Rightarrow>
                         (case faults e Cash_decrement of
                            Some err \<Rightarrow> (w, Inl err)
                          | None \<Rightarrow> (w\<lparr>store := cash_decrement c amt (store w)\<rparr>,
                                     Inr (Some c))))))"

text \<open>
  \<^verbatim>\<open>handleGiveCash\<close>: with the integration flag set, one call on the export
  \<^verbatim>\<open>pefclWithdrawMoney\<close> and \<^verbatim>\<open>null\<close>; otherwise \<^verbatim>\<open>cash?.increment({ amount })\<close> on the
  player's row, if there is one, and the handle.
\<close>

definition handleGiveCash ::
  "env \<Rightarrow> int \<Rightarrow> int \<Rightarrow> world \<Rightarrow> world \<times> (error + cash option)" where
  "handleGiveCash e src amt w =
     (case getUser e src of
        None \<Rightarrow> (w, Inl TypeError)
      | Some identifier \<Rightarrow>
          if useFrameworkIntegration e
          then (w\<lparr>exportCalls := exportCalls w @ [pefclWithdrawMoney src amt]\<rparr>, Inr None)
          else (case faults e CashDB_getCashByIdentifier of
                  Some err \<Rightarrow> (w, Inl err)
                | None \<Rightarrow>
                    (case getCashByIdentifier (store w) identifier of
                       None \<Rightarrow> (w, Inr None)
                     | Some c \<Rightarrow>
                         (case faults e Cash_increment of
                            Some err \<Rightarrow> (w, Inl err)
                          | None \<Rightarrow> (w\<lparr>store := cash_increment c amt (store w)\<rparr>,
                                     Inr (Some c))))))"

section \<open>Example data\<close>

definition ex_alice :: account where
  "ex_alice = \<lparr>acc_id = 1, ownerIdentifier = ''alice'', balance = 500\<rparr>"

definition ex_bob :: account where
  "ex_bob = \<lparr>acc_id = 2, ownerIdentifier = ''bob'', balance = 200\<rparr>"

definition ex_club :: account where
  "ex_club = \<lparr>acc_id = 3, ownerIdentifier = ''carol'', balance = 900\<rparr>"

definition ex_ledger :: "transaction list" where
  "ex_ledger =
     [\<lparr>tx_amount = 50, tx_message = ''rent'', tx_toAccount = Some ex_bob,
       tx_fromAccount = Some ex_alice, tx_type = Outgoing, tx_createdAt = Some 1000\<rparr>,
      \<lparr>tx_amount = 20, tx_message = ''wage'', tx_toAccount = Some ex_alice,
       tx_fromAccount = Some ex_bob, tx_type = Incoming, tx_createdAt = Some 2000\<rparr>,
      \<lparr>tx_amount = 5, tx_message = ''move'', tx_toAccount = Some ex_alice,
       tx_fromAccount = Some ex_alice, tx_type = Transfer, tx_createdAt = Some 3000\<rparr>,
      \<lparr>tx_amount = 7, tx_message = ''gift'', tx_toAccount = Some ex_alice,
       tx_fromAccount = None, tx_type = Incoming, tx_createdAt = Some 90000000\<rparr>]"

definition ex_db :: db where
  "ex_db =
     \<lparr>accounts = [ex_alice, ex_bob, ex_club],
      sharedAccounts = [\<lparr>sa_accountId = 3, sa_userIdentifier = ''alice'', sa_role = Admin\<rparr>],
      externalAccounts = [\<lparr>ext_id = 7, ext_accountId = 2\<rparr>],
      transactions = [],
      cashRows = [\<lparr>cash_id = 1, cash_ownerIdentifier = ''alice'', cash_amount = 30\<rparr>]\<rparr>"

definition ex_env :: env where
  "ex_env =
     \<lparr>faults = (\<lambda>c. None), now = 100000000,
      users = (\<lambda>s. if s = 1 then Some ''alice'' else if s = 2 then Some ''dave'' else None),
      toDateString = (\<lambda>t. if t < 86400000 then ''Thu Jan 01 1970'' else ''Fri Jan 02 1970''),
      useFrameworkIntegration = False\<rparr>"

definition ex_transfer :: "int \<Rightarrow> int \<Rightarrow> int \<Rightarrow> TransferType \<Rightarrow> Transfer Request" where
  "ex_transfer src dst amt ty =
     \<lparr>source = 1,
      data = \<lparr>fromAccountId = src, toAccountId = dst, amount = amt, message = ''note'',
              transferType = ty\<rparr>\<rparr>"

text \<open>
  The sum of the amounts of the rows of one type created on one day, by the day's local
  date string.
\<close>

definition day_sum :: "env \<Rightarrow> TransactionType \<Rightarrow> string \<Rightarrow> transaction list \<Rightarrow> int" where
  "day_sum e ty day txs =
     sum_list (map tx_amount (filter (\<lambda>t. tx_type t = ty \<and> localeDate e t = day) txs))"


section \<open>The stores\<close>

lemma find_acc_map:
  "find (\<lambda>a. acc_id a = i) (map (\<lambda>a. if acc_id a = j then a\<lparr>balance := f (balance a)\<rparr> else a) xs)
   = map_option (\<lambda>a. if acc_id a = j then a\<lparr>balance := f (balance a)\<rparr> else a)
       (find (\<lambda>a. acc_id a = i) xs)"
  by (induction xs) auto

lemma getAccount_increment:
  "getAccount (increment h b d) i =
     map_option (\<lambda>a. if acc_id a = acc_id h then a\<lparr>balance := balance a + b\<rparr> else a) (getAccount d i)"
  unfolding getAccount_def increment_def
  using find_acc_map [of i "acc_id h" "\<lambda>x. x + b" "accounts d"] by simp

lemma getAccount_decrement:
  "getAccount (decrement h b d) i =
     map_option (\<lambda>a. if acc_id a = acc_id h then a\<lparr>balance := balance a - b\<rparr> else a) (getAccount d i)"
  unfolding getAccount_def decrement_def
  using find_acc_map [of i "acc_id h" "\<lambda>x. x - b" "accounts d"] by simp

lemma getAccount_create: "getAccount (create t i d) k = getAccount d k"
  by (simp add: getAccount_def create_def)

lemma getAccount_id: "getAccount d i = Some a \<Longrightarrow> acc_id a = i"
  by (auto simp: getAccount_def find_Some_iff)

lemma getAuthorizedAccountById_id:
  "getAuthorizedAccountById d i u = Some a \<Longrightarrow> acc_id a = i \<and> a \<in> set (accounts d)"
  by (auto simp: getAuthorizedAccountById_def find_Some_iff)

lemma getAuthorizedSharedAccountById_id:
  "getAuthorizedSharedAccountById d i u rs = Some a \<Longrightarrow> acc_id a = i \<and> a \<in> set (accounts d)"
  by (auto simp: getAuthorizedSharedAccountById_def getAccount_def find_Some_iff split: option.splits)

lemma getAccount_exists: "a \<in> set (accounts d) \<Longrightarrow> \<exists>b. getAccount d (acc_id a) = Some b"
  unfolding getAccount_def by (cases "find (\<lambda>x. acc_id x = acc_id a) (accounts d)") (auto simp: find_None_iff)

lemma transactions_balance_ops:
  "transactions (increment h b d) = transactions d"
  "transactions (decrement h b d) = transactions d"
  by (simp_all add: increment_def decrement_def)

lemma internal_try_success:
  assumes "handleInternalTransfer_try e u r d = (d', Inr x)"
  shows "\<exists>toAcc fromAcc.
           getAccount d (toAccountId r) = Some toAcc \<and>
           nullish (getAuthorizedAccountById d (fromAccountId r) u)
                   (getAuthorizedSharedAccountById d (fromAccountId r) u [Admin, Owner]) = Some fromAcc \<and>
           d' = create (now e)
                  \<lparr>in_amount = amount r, in_message = message r,
                   in_toAccount = Some (toJSON toAcc), in_fromAccount = Some (toJSON fromAcc),
                   in_type = Transfer\<rparr>
                  (decrement fromAcc (amount r) (increment toAcc (amount r) d))"
  using assms
  unfolding handleInternalTransfer_try_def andThen_def query_def exec_def throw_def
  by (auto split: option.splits sum.splits prod.splits)

lemma internal_success:
  assumes "handleInternalTransfer e req d = (d', Inr x)"
  shows "\<exists>u toAcc fromAcc.
           getUser e (source req) = Some u \<and>
           getAccount d (toAccountId (data req)) = Some toAcc \<and>
           nullish (getAuthorizedAccountById d (fromAccountId (data req)) u)
                   (getAuthorizedSharedAccountById d (fromAccountId (data req)) u [Admin, Owner])
             = Some fromAcc \<and>
           d' = create (now e)
                  \<lparr>in_amount = amount (data req), in_message = message (data req),
                   in_toAccount = Some (toJSON toAcc), in_fromAccount = Some (toJSON fromAcc),
                   in_type = Transfer\<rparr>
                  (decrement fromAcc (amount (data req)) (increment toAcc (amount (data req)) d))"
proof -
  from assms obtain u where u: "getUser e (source req) = Some u"
    by (auto simp: handleInternalTransfer_def Let_def split: option.splits)
  from assms u have "handleInternalTransfer_try e u (data req) d = (d', Inr x)"
    by (auto simp: handleInternalTransfer_def Let_def commit_def rollback_def
             split: prod.splits sum.splits)
  from internal_try_success [OF this] u show ?thesis by blast
qed

lemma external_try_success:
  assumes "handleExternalTransfer_try e r d = (d', Inr x)"
  shows "\<exists>toAcc myAcc.
           getAccount d (fromAccountId r) = Some myAcc \<and>
           getAccountFromExternalAccount d (toAccountId r) = Some toAcc \<and>
           d' = create (now e)
                  \<lparr>in_amount = amount r, in_message = message r,
                   in_toAccount = Some (toJSON toAcc), in_fromAccount = Some (toJSON myAcc),
                   in_type = Incoming\<rparr>
                 (create (now e)
                  \<lparr>in_amount = amount r, in_message = message r,
                   in_toAccount = Some (toJSON toAcc), in_fromAccount = Some (toJSON myAcc),
                   in_type = Outgoing\<rparr>
                  (increment toAcc (amount r) (decrement myAcc (amount r) d)))"
  using assms
  unfolding handleExternalTransfer_try_def andThen_def query_def exec_def throw_def
  by (auto split: option.splits sum.splits prod.splits)

lemma external_success:
  assumes "handleExternalTransfer e req d = (d', Inr x)"
  shows "handleExternalTransfer_try e (data req) d = (d', Inr x)"
  using assms
  by (auto simp: handleExternalTransfer_def Let_def commit_def rollback_def
           split: prod.splits sum.splits)

lemma nullish_Some:
  "nullish a b = Some x \<longleftrightarrow> a = Some x \<or> (a = None \<and> b = Some x)"
  by (cases a) (auto simp: nullish_def)

section \<open>Unfolding the examples\<close>

lemmas ex_defs = ex_alice_def ex_bob_def ex_club_def ex_ledger_def ex_db_def ex_env_def
  ex_transfer_def

lemmas transfer_defs = handleTransfer_def handleInternalTransfer_def
  handleInternalTransfer_try_def handleExternalTransfer_def handleExternalTransfer_try_def
  andThen_def query_def exec_def throw_def sequelize_transaction_def commit_def rollback_def
  getUser_def getAccount_def getAuthorizedAccountById_def getAuthorizedSharedAccountById_def
  getAccountFromExternalAccount_def nullish_def increment_def decrement_def create_def
  toJSON_def Let_def

lemmas cash_defs = handleTakeCash_def handleGiveCash_def getUser_def getCashByIdentifier_def
  cash_decrement_def cash_increment_def

lemmas history_defs = handleGetHistory_def history_of_def getUser_def getAccountsByIdentifier_def
  getAllTransactionsFromAccounts_def names_account_def MS_ONE_WEEK_def income_step_def
  expenses_step_def lastWeek_step_def totals_at_def localeDate_def Let_def


section \<open>Transfers\<close>

text \<open>
  C3, as amended. An internal transfer that succeeds finds both accounts. When source and
  destination are different accounts, the source balance afterwards is its balance before
  minus the amount and the destination balance afterwards is its balance before plus the
  amount; when they are the same account, its balance is what it was. In both cases
  exactly one ledger row is appended, of type \<open>Transfer\<close>, with the amount, the message
  and the snapshots of both accounts: its \<open>toAccount\<close> is the destination account as it
  was looked up, and its \<open>fromAccount\<close> is the source account as it was looked up, that
  is the stored account with the source id that the caller owns or, failing that, shares
  as \<open>Admin\<close> or \<open>Owner\<close>.
\<close>

theorem internal_transfer_balances_and_ledger:
  assumes internal: "transferType (data req) = Internal"
      and ok: "handleTransfer e req d = (d', Inr ())"
  shows "\<exists>u src dst fromAcc.
           getUser e (source req) = Some u \<and>
           getAccount d (fromAccountId (data req)) = Some src \<and>
           getAccount d (toAccountId (data req)) = Some dst \<and>
           nullish (getAuthorizedAccountById d (fromAccountId (data req)) u)
                   (getAuthorizedSharedAccountById d (fromAccountId (data req)) u [Admin, Owner])
             = Some fromAcc \<and>
           fromAcc \<in> set (accounts d) \<and>
           acc_id fromAcc = fromAccountId (data req) \<and>
           (fromAccountId (data req) \<noteq> toAccountId (data req) \<longrightarrow>
              map_option balance (getAccount d' (fromAccountId (data req)))
                = Some (balance src - amount (data req)) \<and>
              map_option balance (getAccount d' (toAccountId (data req)))
                = Some (balance dst + amount (data req))) \<and>
           (fromAccountId (data req) = toAccountId (data req) \<longrightarrow>
              map_option balance (getAccount d' (fromAccountId (data req))) = Some (balance src)) \<and>
           transactions d' = transactions d @
             [\<lparr>tx_amount = amount (data req), tx_message = message (data req),
               tx_toAccount = Some dst, tx_fromAccount = Some fromAcc,
               tx_type = Transfer, tx_createdAt = Some (now e)\<rparr>]"
proof -
  let ?r = "data req"
  from internal ok have "handleInternalTransfer e req d = (d', Inr ())"
    by (simp add: handleTransfer_def)
  from internal_success [OF this] obtain u toAcc fromAcc where
    dstH: "getAccount d (toAccountId ?r) = Some toAcc" and
    srcH: "nullish (getAuthorizedAccountById d (fromAccountId ?r) u)
             (getAuthorizedSharedAccountById d (fromAccountId ?r) u [Admin, Owner]) = Some fromAcc" and
    d': "d' = create (now e)
                  \<lparr>in_amount = amount ?r, in_message = message ?r,
                   in_toAccount = Some (toJSON toAcc), in_fromAccount = Some (toJSON fromAcc),
                   in_type = Transfer\<rparr>
                  (decrement fromAcc (amount ?r) (increment toAcc (amount ?r) d))"
    and usr: "getUser e (source req) = Some u"
    by blast
  from srcH have fid: "acc_id fromAcc = fromAccountId ?r" and fmem: "fromAcc \<in> set (accounts d)"
    using getAuthorizedAccountById_id getAuthorizedSharedAccountById_id
    by (fastforce simp: nullish_Some)+
  from dstH have tid: "acc_id toAcc = toAccountId ?r" by (rule getAccount_id)
  from getAccount_exists [OF fmem] fid obtain src where
    src: "getAccount d (fromAccountId ?r) = Some src" by auto
  have sid: "acc_id src = fromAccountId ?r" using src by (rule getAccount_id)
  have after: "getAccount d' i =
      map_option (\<lambda>a. if acc_id a = acc_id fromAcc then a\<lparr>balance := balance a - amount ?r\<rparr> else a)
        (map_option (\<lambda>a. if acc_id a = acc_id toAcc then a\<lparr>balance := balance a + amount ?r\<rparr> else a)
           (getAccount d i))" for i
    unfolding d' by (simp add: getAccount_create getAccount_decrement getAccount_increment)
  have ledger: "transactions d' = transactions d @
             [\<lparr>tx_amount = amount ?r, tx_message = message ?r,
               tx_toAccount = Some toAcc, tx_fromAccount = Some fromAcc,
               tx_type = Transfer, tx_createdAt = Some (now e)\<rparr>]"
    unfolding d' by (simp add: create_def toJSON_def transactions_balance_ops)
  have distinct: "fromAccountId ?r \<noteq> toAccountId ?r \<longrightarrow>
              map_option balance (getAccount d' (fromAccountId ?r)) = Some (balance src - amount ?r) \<and>
              map_option balance (getAccount d' (toAccountId ?r)) = Some (balance toAcc + amount ?r)"
    using src dstH by (simp add: after fid tid sid)
  have same: "fromAccountId ?r = toAccountId ?r \<longrightarrow>
              map_option balance (getAccount d' (fromAccountId ?r)) = Some (balance src)"
    using src dstH by (auto simp add: after fid tid sid)
  from usr src dstH srcH fmem fid distinct same ledger show ?thesis by blast
qed

text \<open>
  C1, as amended. An external transfer that succeeds appends exactly two ledger rows, the
  first of type \<open>Outgoing\<close> and the second of type \<open>Incoming\<close>, with the same amount
  and message and with the same account snapshots in the same roles: in both rows the
  \<open>fromAccount\<close> is the initiator's account and the \<open>toAccount\<close> is the account
  behind the external account.
\<close>

theorem external_transfer_two_rows:
  assumes external: "transferType (data req) = External"
      and ok: "handleTransfer e req d = (d', Inr ())"
  shows "\<exists>myAcc toAcc.
           getAccount d (fromAccountId (data req)) = Some myAcc \<and>
           getAccountFromExternalAccount d (toAccountId (data req)) = Some toAcc \<and>
           transactions d' = transactions d @
             [\<lparr>tx_amount = amount (data req), tx_message = message (data req),
               tx_toAccount = Some toAcc, tx_fromAccount = Some myAcc,
               tx_type = Outgoing, tx_createdAt = Some (now e)\<rparr>,
              \<lparr>tx_amount = amount (data req), tx_message = message (data req),
               tx_toAccount = Some toAcc, tx_fromAccount = Some myAcc,
               tx_type = Incoming, tx_createdAt = Some (now e)\<rparr>]"
proof -
  from external ok have "handleExternalTransfer e req d = (d', Inr ())"
    by (simp add: handleTransfer_def)
  from external_try_success [OF external_success [OF this]] show ?thesis
    by (auto simp: create_def toJSON_def transactions_balance_ops)
qed

text \<open>
  C4. When the lookups complete and either the source or the destination account of a
  transfer, internal (for a caller the user directory knows) or external, is not found,
  \<open>handleTransfer\<close> raises \<open>NotFound\<close> and the store is what it was: no balance has
  changed and no ledger row was added, the error being raised before any write.
\<close>

theorem unresolved_account_not_found:
  assumes lookups:
    "\<forall>c \<in> {AccountDB_getAuthorizedAccountById, AccountDB_getAuthorizedSharedAccountById,
            AccountDB_getAccount, ExternalAccountService_getAccountFromExternalAccount}.
       faults e c = None"
  and unresolved:
    "if transferType (data req) = External
     then getAccount d (fromAccountId (data req)) = None
          \<or> getAccountFromExternalAccount d (toAccountId (data req)) = None
     else \<exists>u. getUser e (source req) = Some u \<and>
            ((getAuthorizedAccountById d (fromAccountId (data req)) u = None \<and>
              getAuthorizedSharedAccountById d (fromAccountId (data req)) u [Admin, Owner] = None)
             \<or> getAccount d (toAccountId (data req)) = None)"
  shows "handleTransfer e req d = (d, Inl NotFound)"
proof (cases "transferType (data req) = External")
  case True
  with unresolved lookups show ?thesis
    unfolding handleTransfer_def handleExternalTransfer_def handleExternalTransfer_try_def
      andThen_def query_def throw_def sequelize_transaction_def rollback_def Let_def
    by (auto split: option.splits)
next
  case False
  with unresolved lookups show ?thesis
    unfolding handleTransfer_def handleInternalTransfer_def handleInternalTransfer_try_def
      andThen_def query_def throw_def sequelize_transaction_def rollback_def Let_def nullish_def
    by (auto split: option.splits)
qed


section \<open>Cash and history\<close>

lemma find_cash_map:
  "find (\<lambda>c. cash_ownerIdentifier c = u)
        (map (\<lambda>c. if cash_id c = j then c\<lparr>cash_amount := f (cash_amount c)\<rparr> else c) xs)
   = map_option (\<lambda>c. if cash_id c = j then c\<lparr>cash_amount := f (cash_amount c)\<rparr> else c)
       (find (\<lambda>c. cash_ownerIdentifier c = u) xs)"
  by (induction xs) auto

lemma getCashByIdentifier_decrement:
  "getCashByIdentifier (cash_decrement h b d) u =
     map_option (\<lambda>c. if cash_id c = cash_id h then c\<lparr>cash_amount := cash_amount c - b\<rparr> else c)
       (getCashByIdentifier d u)"
  unfolding getCashByIdentifier_def cash_decrement_def
  using find_cash_map [of u "cash_id h" "\<lambda>x. x - b" "cashRows d"] by simp

text \<open>
  C2, as amended. With the framework-integration flag set, \<open>handleTakeCash\<close> makes
  one call on the integration's export \<open>pefclDepositMoney\<close> and \<open>handleGiveCash\<close>
  one call on its export \<open>pefclWithdrawMoney\<close>, each with the session and the amount;
  neither touches the store, and both return \<open>null\<close>.
\<close>

theorem integration_delegates:
  assumes flag: "useFrameworkIntegration e"
      and user: "getUser e src = Some u"
  shows "handleTakeCash e src amt w
           = (w\<lparr>exportCalls := exportCalls w @ [pefclDepositMoney src amt]\<rparr>, Inr None) \<and>
         handleGiveCash e src amt w
           = (w\<lparr>exportCalls := exportCalls w @ [pefclWithdrawMoney src amt]\<rparr>, Inr None)"
  using flag user by (simp add: handleTakeCash_def handleGiveCash_def)

text \<open>
  C6. With the flag off and a cash row for the caller, \<open>handleTakeCash\<close> returns the
  row's handle and the stored amount afterwards is the amount before minus the given
  amount, whatever the two are: when the given amount is greater than the amount before,
  the stored amount afterwards is negative and no error is raised.
\<close>

theorem take_cash_no_floor:
  assumes flag: "\<not> useFrameworkIntegration e"
      and user: "getUser e src = Some u"
      and row: "getCashByIdentifier (store w) u = Some c"
      and nofault: "faults e CashDB_getCashByIdentifier = None" "faults e Cash_decrement = None"
  shows "\<exists>w'. handleTakeCash e src amt w = (w', Inr (Some c)) \<and>
              map_option cash_amount (getCashByIdentifier (store w') u) = Some (cash_amount c - amt) \<and>
              exportCalls w' = exportCalls w \<and>
              (cash_amount c < amt \<longrightarrow>
                 (\<exists>c'. getCashByIdentifier (store w') u = Some c' \<and> cash_amount c' < 0))"
  using flag user row nofault
  by (auto simp: handleTakeCash_def getCashByIdentifier_decrement)

text \<open>
  C9. With the flag off and no cash row for the caller, \<open>handleTakeCash\<close> and
  \<open>handleGiveCash\<close> return \<open>null\<close>, raise nothing and leave the store and the
  export calls as they were.
\<close>

theorem no_cash_row_returns_null:
  assumes flag: "\<not> useFrameworkIntegration e"
      and user: "getUser e src = Some u"
      and norow: "getCashByIdentifier (store w) u = None"
      and nofault: "faults e CashDB_getCashByIdentifier = None"
  shows "handleTakeCash e src amt w = (w, Inr None) \<and> handleGiveCash e src amt w = (w, Inr None)"
  using flag user norow nofault by (simp add: handleTakeCash_def handleGiveCash_def)

lemma foldl_income_step:
  "foldl income_step a txs = a + sum_list (map tx_amount (filter (\<lambda>t. tx_type t = Incoming) txs))"
  by (induction txs arbitrary: a) (auto simp: income_step_def)

lemma foldl_expenses_step:
  "foldl expenses_step a txs = a - sum_list (map tx_amount (filter (\<lambda>t. tx_type t = Outgoing) txs))"
  by (induction txs arbitrary: a) (auto simp: expenses_step_def)

lemma day_sum_simps:
  "day_sum e ty day [] = 0"
  "day_sum e ty day (t # ts) =
     (if tx_type t = ty \<and> localeDate e t = day then tx_amount t else 0) + day_sum e ty day ts"
  by (simp_all add: day_sum_def)

lemma map_of_lastWeek_step:
  "map_of (lastWeek_step e prev t) day =
     (if localeDate e t = day
      then Some \<lparr>day_income = fst (totals_at prev day) + (if tx_type t = Incoming then tx_amount t else 0),
                 day_expenses = snd (totals_at prev day) - (if tx_type t = Outgoing then tx_amount t else 0)\<rparr>
      else map_of prev day)"
  by (auto simp: lastWeek_step_def Let_def update_conv')

lemma totals_at_lastWeek_step:
  "totals_at (lastWeek_step e prev t) day =
     (if localeDate e t = day
      then (fst (totals_at prev day) + (if tx_type t = Incoming then tx_amount t else 0),
            snd (totals_at prev day) - (if tx_type t = Outgoing then tx_amount t else 0))
      else totals_at prev day)"
  unfolding totals_at_def [of "lastWeek_step e prev t"] map_of_lastWeek_step
  by (simp add: totals_at_def)

lemma day_sum_absent: "day \<notin> localeDate e ` set txs \<Longrightarrow> day_sum e ty day txs = 0"
  by (induction txs) (auto simp: day_sum_simps)

lemma map_of_foldl_lastWeek_step:
  "map_of (foldl (lastWeek_step e) prev txs) day =
     (if day \<in> localeDate e ` set txs
      then Some \<lparr>day_income = fst (totals_at prev day) + day_sum e Incoming day txs,
                 day_expenses = snd (totals_at prev day) - day_sum e Outgoing day txs\<rparr>
      else map_of prev day)"
proof (induction txs arbitrary: prev)
  case Nil
  show ?case by simp
next
  case (Cons t ts)
  show ?case
    by (auto simp: Cons.IH map_of_lastWeek_step totals_at_lastWeek_step day_sum_simps
          day_sum_absent)
qed

lemma totals_at_foldl_lastWeek_step:
  "totals_at (foldl (lastWeek_step e) prev txs) day =
     (fst (totals_at prev day) + day_sum e Incoming day txs,
      snd (totals_at prev day) - day_sum e Outgoing day txs)"
proof (induction txs arbitrary: prev)
  case Nil
  show ?case by (simp add: day_sum_simps)
next
  case (Cons t ts)
  show ?case
    by (simp add: Cons.IH totals_at_lastWeek_step day_sum_simps)
qed

lemma filter_type_no_transfer:
  "ty \<noteq> Transfer \<Longrightarrow>
   filter (\<lambda>t. tx_type t = ty \<and> P t) (filter (\<lambda>t. tx_type t \<noteq> Transfer) txs)
     = filter (\<lambda>t. tx_type t = ty \<and> P t) txs"
  by (induction txs) auto

text \<open>
  C7. Over the rows of the trailing seven days that the store returns for the caller's
  accounts, \<open>handleGetHistory\<close> returns as expenses the negated sum of the amounts of
  the \<open>Outgoing\<close> rows, as income the sum of the amounts of the \<open>Incoming\<close> rows,
  and a per-day object that has an entry exactly for the local date strings of these
  rows, the entry of a day holding the same two sums restricted to the rows of that day.
\<close>

theorem history_sums:
  assumes user: "getUser e (source req) = Some u"
      and nofault: "faults e AccountDB_getAccountsByIdentifier = None"
                   "faults e TransactionDB_getAllTransactionsFromAccounts = None"
  shows "\<exists>h. handleGetHistory e req d = Inr h \<and>
          (let txs = getAllTransactionsFromAccounts d
                       (map acc_id (getAccountsByIdentifier d u)) (now e - MS_ONE_WEEK)
           in expenses h = - sum_list (map tx_amount (filter (\<lambda>t. tx_type t = Outgoing) txs)) \<and>
              income h = sum_list (map tx_amount (filter (\<lambda>t. tx_type t = Incoming) txs)) \<and>
              (\<forall>day. map_of (lastWeek h) day =
                 (if day \<in> localeDate e ` set txs
                  then Some \<lparr>day_income = sum_list (map tx_amount
                                (filter (\<lambda>t. tx_type t = Incoming \<and> localeDate e t = day) txs)),
                             day_expenses = - sum_list (map tx_amount
                                (filter (\<lambda>t. tx_type t = Outgoing \<and> localeDate e t = day) txs))\<rparr>
                  else None)))"
  using user nofault
  by (simp add: handleGetHistory_def history_of_def Let_def foldl_income_step foldl_expenses_step
        map_of_foldl_lastWeek_step totals_at_def day_sum_def)

text \<open>
  C10. Rows of type \<open>Transfer\<close> count for nothing in the history: leaving them out of
  the list changes neither the income nor the expenses total, nor the income and expenses
  read from any day's bucket.
\<close>

theorem transfer_rows_do_not_count:
  "income (history_of e (filter (\<lambda>t. tx_type t \<noteq> Transfer) txs)) = income (history_of e txs) \<and>
   expenses (history_of e (filter (\<lambda>t. tx_type t \<noteq> Transfer) txs)) = expenses (history_of e txs) \<and>
   (\<forall>day. totals_at (lastWeek (history_of e (filter (\<lambda>t. tx_type t \<noteq> Transfer) txs))) day
           = totals_at (lastWeek (history_of e txs)) day)"
proof -
  have f: "filter (\<lambda>t. tx_type t \<noteq> Transfer \<and> tx_type t = ty) txs
             = filter (\<lambda>t. tx_type t = ty) txs" if "ty \<noteq> Transfer" for ty
    using that by (intro filter_cong) auto
  have g: "day_sum e ty day (filter (\<lambda>t. tx_type t \<noteq> Transfer) txs) = day_sum e ty day txs"
    if "ty \<noteq> Transfer" for ty day
    unfolding day_sum_def by (simp only: filter_type_no_transfer [OF that])
  show ?thesis
    by (simp add: history_of_def foldl_income_step foldl_expenses_step
          totals_at_foldl_lastWeek_step f g)
qed

section \<open>The claims at the examples\<close>

text \<open>
  C3 at a transfer of 100 from account 1 (balance 500) to account 2 (balance 200).
\<close>

theorem internal_transfer_balances_and_ledger_witness:
  "transferType (data (ex_transfer 1 2 100 Internal)) = Internal \<and>
   snd (handleTransfer ex_env (ex_transfer 1 2 100 Internal) ex_db) = Inr () \<and>
   map_option balance
     (getAccount (fst (handleTransfer ex_env (ex_transfer 1 2 100 Internal) ex_db)) 1) = Some 400 \<and>
   map_option balance
     (getAccount (fst (handleTransfer ex_env (ex_transfer 1 2 100 Internal) ex_db)) 2) = Some 300 \<and>
   map tx_fromAccount
     (transactions (fst (handleTransfer ex_env (ex_transfer 1 2 100 Internal) ex_db)))
     = [Some ex_alice] \<and>
   map tx_toAccount
     (transactions (fst (handleTransfer ex_env (ex_transfer 1 2 100 Internal) ex_db)))
     = [Some ex_bob]"
proof -
  let ?R = "ex_transfer 1 2 100 Internal"
  have h1: "transferType (data ?R) = Internal"
    by (simp add: ex_transfer_def)
  have h2: "handleTransfer ex_env ?R ex_db = (fst (handleTransfer ex_env ?R ex_db), Inr ())"
    by (simp add: prod_eq_iff ex_defs transfer_defs)
  show ?thesis
    using internal_transfer_balances_and_ledger [OF h1 h2]
    by (simp add: ex_defs transfer_defs)
qed

text \<open>
  C3 as stated fails where source and destination are the same account: the transfer of
  100 from account 1 (balance 500) to account 1 succeeds and leaves the balance at 500,
  which is neither 500 - 100 nor 500 + 100.
\<close>

theorem internal_self_transfer_counterexample:
  "transferType (data (ex_transfer 1 1 100 Internal)) = Internal \<and>
   snd (handleTransfer ex_env (ex_transfer 1 1 100 Internal) ex_db) = Inr () \<and>
   map_option balance (getAccount ex_db 1) = Some 500 \<and>
   map_option balance
     (getAccount (fst (handleTransfer ex_env (ex_transfer 1 1 100 Internal) ex_db)) 1)
     \<noteq> Some (500 - 100) \<and>
   map_option balance
     (getAccount (fst (handleTransfer ex_env (ex_transfer 1 1 100 Internal) ex_db)) 1)
     \<noteq> Some (500 + 100)"
  by (simp add: ex_defs transfer_defs)

text \<open>
  C1 at an external transfer of 50 from account 1 to the external account 7.
\<close>

theorem external_transfer_two_rows_witness:
  "transferType (data (ex_transfer 1 7 50 External)) = External \<and>
   snd (handleTransfer ex_env (ex_transfer 1 7 50 External) ex_db) = Inr () \<and>
   map tx_type (transactions (fst (handleTransfer ex_env (ex_transfer 1 7 50 External) ex_db)))
     = [Outgoing, Incoming]"
proof -
  let ?R = "ex_transfer 1 7 50 External"
  have h1: "transferType (data ?R) = External"
    by (simp add: ex_transfer_def)
  have h2: "handleTransfer ex_env ?R ex_db = (fst (handleTransfer ex_env ?R ex_db), Inr ())"
    by (simp add: prod_eq_iff ex_defs transfer_defs)
  show ?thesis
    using external_transfer_two_rows [OF h1 h2]
    by (simp add: ex_defs transfer_defs)
qed

text \<open>
  C1 as stated fails: in the external transfer of 50 from account 1 to the external
  account 7 (account 2), the \<open>fromAccount\<close> of both rows is account 1 and the
  \<open>toAccount\<close> of both rows is account 2, so the \<open>fromAccount\<close> of one row is not
  the \<open>toAccount\<close> of the other.
\<close>

theorem external_snapshots_not_reversed_counterexample:
  "transferType (data (ex_transfer 1 7 50 External)) = External \<and>
   snd (handleTransfer ex_env (ex_transfer 1 7 50 External) ex_db) = Inr () \<and>
   map tx_type (transactions (fst (handleTransfer ex_env (ex_transfer 1 7 50 External) ex_db)))
     = [Outgoing, Incoming] \<and>
   map tx_fromAccount
     (transactions (fst (handleTransfer ex_env (ex_transfer 1 7 50 External) ex_db)))
     = [Some ex_alice, Some ex_alice] \<and>
   map tx_toAccount
     (transactions (fst (handleTransfer ex_env (ex_transfer 1 7 50 External) ex_db)))
     = [Some ex_bob, Some ex_bob] \<and>
   ex_alice \<noteq> ex_bob"
  by (simp add: ex_defs transfer_defs)

text \<open>
  C2 at session 1 and amount 10.
\<close>

theorem integration_delegates_witness:
  "useFrameworkIntegration (ex_env\<lparr>useFrameworkIntegration := True\<rparr>) \<and>
   handleTakeCash (ex_env\<lparr>useFrameworkIntegration := True\<rparr>) 1 10
       \<lparr>store = ex_db, exportCalls = []\<rparr>
     = (\<lparr>store = ex_db, exportCalls = [pefclDepositMoney 1 10]\<rparr>, Inr None) \<and>
   handleGiveCash (ex_env\<lparr>useFrameworkIntegration := True\<rparr>) 1 10
       \<lparr>store = ex_db, exportCalls = []\<rparr>
     = (\<lparr>store = ex_db, exportCalls = [pefclWithdrawMoney 1 10]\<rparr>, Inr None)"
proof -
  let ?e = "ex_env\<lparr>useFrameworkIntegration := True\<rparr>"
  have h1: "useFrameworkIntegration ?e" by simp
  have h2: "getUser ?e 1 = Some ''alice''" by (simp add: getUser_def ex_env_def)
  show ?thesis
    using h1 integration_delegates [OF h1 h2, of 10 "\<lparr>store = ex_db, exportCalls = []\<rparr>"]
    by simp
qed

text \<open>
  C2 as stated fails: with the flag set, the only export \<open>handleTakeCash\<close> calls is
  \<open>pefclDepositMoney\<close>, not the withdraw export, and the only export
  \<open>handleGiveCash\<close> calls is \<open>pefclWithdrawMoney\<close>, not the deposit export.
\<close>

theorem take_cash_calls_deposit_counterexample:
  "useFrameworkIntegration (ex_env\<lparr>useFrameworkIntegration := True\<rparr>) \<and>
   exportCalls (fst (handleTakeCash (ex_env\<lparr>useFrameworkIntegration := True\<rparr>) 1 10
       \<lparr>store = ex_db, exportCalls = []\<rparr>)) = [pefclDepositMoney 1 10] \<and>
   pefclWithdrawMoney 1 10 \<notin> set (exportCalls (fst (handleTakeCash
       (ex_env\<lparr>useFrameworkIntegration := True\<rparr>) 1 10 \<lparr>store = ex_db, exportCalls = []\<rparr>))) \<and>
   exportCalls (fst (handleGiveCash (ex_env\<lparr>useFrameworkIntegration := True\<rparr>) 1 10
       \<lparr>store = ex_db, exportCalls = []\<rparr>)) = [pefclWithdrawMoney 1 10] \<and>
   pefclDepositMoney 1 10 \<notin> set (exportCalls (fst (handleGiveCash
       (ex_env\<lparr>useFrameworkIntegration := True\<rparr>) 1 10 \<lparr>store = ex_db, exportCalls = []\<rparr>)))"
  by (simp add: ex_env_def cash_defs)

text \<open>
  C4 at an internal transfer from an account the caller has no right on, at an internal
  transfer to an account that does not exist, and at an external transfer to an unknown
  external account.
\<close>

theorem unresolved_account_not_found_witness:
  "handleTransfer ex_env (ex_transfer 2 1 100 Internal) ex_db = (ex_db, Inl NotFound) \<and>
   handleTransfer ex_env (ex_transfer 1 9 100 Internal) ex_db = (ex_db, Inl NotFound) \<and>
   handleTransfer ex_env (ex_transfer 1 8 100 External) ex_db = (ex_db, Inl NotFound)"
proof -
  have l: "\<forall>c \<in> {AccountDB_getAuthorizedAccountById, AccountDB_getAuthorizedSharedAccountById,
            AccountDB_getAccount, ExternalAccountService_getAccountFromExternalAccount}.
       faults ex_env c = None"
    by (simp add: ex_env_def)
  have a: "handleTransfer ex_env (ex_transfer 2 1 100 Internal) ex_db = (ex_db, Inl NotFound)"
    by (rule unresolved_account_not_found [OF l]) (simp add: ex_defs transfer_defs)
  have b: "handleTransfer ex_env (ex_transfer 1 9 100 Internal) ex_db = (ex_db, Inl NotFound)"
    by (rule unresolved_account_not_found [OF l]) (simp add: ex_defs transfer_defs)
  have c: "handleTransfer ex_env (ex_transfer 1 8 100 External) ex_db = (ex_db, Inl NotFound)"
    by (rule unresolved_account_not_found [OF l]) (simp add: ex_defs transfer_defs)
  from a b c show ?thesis by blast
qed

text \<open>
  C5 fails on the code. Take the transfer of 100 from account 1 (balance 500) to account 2
  (balance 200) and let the ledger insert raise: \<open>handleTransfer\<close> raises that error
  unchanged, but the credit and the debit stay, the balances being 400 and 300. Take the
  external transfer of 50 from account 1 to the external account 7 (account 2) and let
  the second ledger insert raise: the balances stay at 450 and 250, and the \<open>Outgoing\<close>
  row stays in the ledger. The writes were made without the handle, so the rollback has
  nothing to undo.
\<close>

theorem failed_insert_keeps_writes:
  "handleTransfer
     (ex_env\<lparr>faults := (faults ex_env)(TransactionDB_create Transfer \<mapsto> Failure ''deadlock'')\<rparr>)
     (ex_transfer 1 2 100 Internal) ex_db
     = (ex_db\<lparr>accounts := [ex_alice\<lparr>balance := 400\<rparr>, ex_bob\<lparr>balance := 300\<rparr>, ex_club]\<rparr>,
        Inl (Failure ''deadlock'')) \<and>
   handleTransfer
     (ex_env\<lparr>faults := (faults ex_env)(TransactionDB_create Incoming \<mapsto> Failure ''deadlock'')\<rparr>)
     (ex_transfer 1 7 50 External) ex_db
     = (ex_db\<lparr>accounts := [ex_alice\<lparr>balance := 450\<rparr>, ex_bob\<lparr>balance := 250\<rparr>, ex_club],
              transactions :=
                [\<lparr>tx_amount = 50, tx_message = ''note'', tx_toAccount = Some ex_bob,
                  tx_fromAccount = Some ex_alice, tx_type = Outgoing,
                  tx_createdAt = Some 100000000\<rparr>]\<rparr>,
        Inl (Failure ''deadlock''))"
  by (simp add: ex_defs transfer_defs)

text \<open>
  C6 at a cash row of 30 and an amount of 45: the row ends at -15.
\<close>

theorem take_cash_no_floor_witness:
  "\<not> useFrameworkIntegration ex_env \<and>
   (\<exists>w'. handleTakeCash ex_env 1 45 \<lparr>store = ex_db, exportCalls = []\<rparr>
            = (w', Inr (Some \<lparr>cash_id = 1, cash_ownerIdentifier = ''alice'', cash_amount = 30\<rparr>)) \<and>
          map_option cash_amount (getCashByIdentifier (store w') ''alice'') = Some (- 15))"
proof -
  let ?c = "\<lparr>cash_id = 1, cash_ownerIdentifier = ''alice'', cash_amount = 30\<rparr>"
  let ?w = "\<lparr>store = ex_db, exportCalls = []\<rparr>"
  have h1: "\<not> useFrameworkIntegration ex_env" by (simp add: ex_env_def)
  have h2: "getUser ex_env 1 = Some ''alice''" by (simp add: getUser_def ex_env_def)
  have h3: "getCashByIdentifier (store ?w) ''alice'' = Some ?c"
    by (simp add: getCashByIdentifier_def ex_db_def)
  have h4: "faults ex_env CashDB_getCashByIdentifier = None" by (simp add: ex_env_def)
  have h5: "faults ex_env Cash_decrement = None" by (simp add: ex_env_def)
  from take_cash_no_floor [OF h1 h2 h3 h4 h5, of 45] h1 show ?thesis by auto
qed

text \<open>
  C9 at a caller without a cash row.
\<close>

theorem no_cash_row_returns_null_witness:
  "\<not> useFrameworkIntegration ex_env \<and>
   getCashByIdentifier ex_db ''dave'' = None \<and>
   handleTakeCash ex_env 2 45 \<lparr>store = ex_db, exportCalls = []\<rparr>
     = (\<lparr>store = ex_db, exportCalls = []\<rparr>, Inr None) \<and>
   handleGiveCash ex_env 2 45 \<lparr>store = ex_db, exportCalls = []\<rparr>
     = (\<lparr>store = ex_db, exportCalls = []\<rparr>, Inr None)"
proof -
  let ?w = "\<lparr>store = ex_db, exportCalls = []\<rparr>"
  have h1: "\<not> useFrameworkIntegration ex_env" by (simp add: ex_env_def)
  have h2: "getUser ex_env 2 = Some ''dave''" by (simp add: getUser_def ex_env_def)
  have h3: "getCashByIdentifier (store ?w) ''dave'' = None"
    by (simp add: getCashByIdentifier_def ex_db_def)
  have h4: "faults ex_env CashDB_getCashByIdentifier = None" by (simp add: ex_env_def)
  from no_cash_row_returns_null [OF h1 h2 h3 h4, of 45] h1 h3 show ?thesis by simp
qed

text \<open>
  C7 at a ledger of four rows over two days.
\<close>

theorem history_sums_witness:
  "\<exists>h. handleGetHistory ex_env \<lparr>source = 1, data = ()\<rparr> (ex_db\<lparr>transactions := ex_ledger\<rparr>) = Inr h \<and>
        expenses h = - 50 \<and> income h = 27 \<and>
        map_of (lastWeek h) ''Thu Jan 01 1970'' = Some \<lparr>day_income = 20, day_expenses = - 50\<rparr> \<and>
        map_of (lastWeek h) ''Fri Jan 02 1970'' = Some \<lparr>day_income = 7, day_expenses = 0\<rparr> \<and>
        map_of (lastWeek h) ''Sat Jan 03 1970'' = None"
proof -
  have h1: "getUser ex_env (source \<lparr>source = 1, data = ()\<rparr>) = Some ''alice''"
    by (simp add: getUser_def ex_env_def)
  have h2: "faults ex_env AccountDB_getAccountsByIdentifier = None" by (simp add: ex_env_def)
  have h3: "faults ex_env TransactionDB_getAllTransactionsFromAccounts = None"
    by (simp add: ex_env_def)
  show ?thesis
    using history_sums [OF h1 h2 h3, of "ex_db\<lparr>transactions := ex_ledger\<rparr>"]
    by (simp add: ex_defs history_defs)
qed


text \<open>
  C10 at the example ledger, which holds one row of type \<open>Transfer\<close>.
\<close>

theorem transfer_rows_do_not_count_witness:
  "income (history_of ex_env (filter (\<lambda>t. tx_type t \<noteq> Transfer) ex_ledger))
     = income (history_of ex_env ex_ledger) \<and>
   expenses (history_of ex_env (filter (\<lambda>t. tx_type t \<noteq> Transfer) ex_ledger))
     = expenses (history_of ex_env ex_ledger) \<and>
   (\<forall>day. totals_at (lastWeek (history_of ex_env (filter (\<lambda>t. tx_type t \<noteq> Transfer) ex_ledger))) day
           = totals_at (lastWeek (history_of ex_env ex_ledger)) day)"
  by (rule transfer_rows_do_not_count)

end
